theory Spec2Isabelle
  imports Main
begin

section \<open>Account linking and sign-up: the data model\<close>

text \<open>
  The two flows of the repository that touch the credential store are the server action
  \<^verbatim>\<open>signUpWithCredentials\<close> and the route handler \<^verbatim>\<open>POST\<close> of
  \<^verbatim>\<open>signin-with-oauth\<close>; the \<^verbatim>\<open>jwt\<close> callback of \<^verbatim>\<open>auth.ts\<close> reads what
  they wrote. Documents are records, collections are lists in insertion order
  (\<^verbatim>\<open>findOne\<close> returns the first match), \<^verbatim>\<open>undefined\<close> fields are \<open>None\<close>.
\<close>

type_synonym field_errors = "(string \<times> string list) list"

text \<open>
  What a \<^verbatim>\<open>throw\<close> carries: \<^verbatim>\<open>new Error(msg)\<close>, \<^verbatim>\<open>new ValidationError(fieldErrors)\<close>
  of \<^verbatim>\<open>@/lib/http-errors\<close>, or whatever a library call rejected with (its class name
  and message).
\<close>

datatype exn =
    Error string
  | ValidationError field_errors
  | External string string

fun exn_class :: "exn \<Rightarrow> string" where
  "exn_class (Error m) = ''Error''"
| "exn_class (ValidationError fe) = ''ValidationError''"
| "exn_class (External c m) = c"

record user_doc =
  user_id :: nat
  user_name :: string
  user_username :: string
  user_email :: string
  user_image :: "string option"

record account_doc =
  account_userId :: nat
  account_name :: string
  account_image :: "string option"
  account_provider :: string
  account_providerAccountId :: string
  account_password :: "string option"

record database =
  users :: "user_doc list"
  accounts :: "account_doc list"

text \<open>\<^verbatim>\<open>AuthCredentials\<close>, the parameter of the sign-up action.\<close>

record auth_credentials =
  name :: string
  username :: string
  email :: string
  password :: string

text \<open>The JSON body of the OAuth route: \<^verbatim>\<open>{ provider, providerAccountId, user }\<close>.\<close>

record oauth_user =
  ou_name :: string
  ou_username :: string
  ou_email :: string
  ou_image :: string

record oauth_request =
  provider :: string
  providerAccountId :: string
  user :: oauth_user

text \<open>\<^verbatim>\<open>const updatedData: { name?: string; image?: string } = {}\<close>\<close>

record updated_data =
  upd_name :: "string option"
  upd_image :: "string option"

section \<open>The collaborators\<close>

text \<open>
  Every call that leaves the function is recorded, with its arguments, in the order it
  is made, together with how it ended: \<open>None\<close> when it returned, \<open>Some e\<close> when it threw
  or rejected with \<open>e\<close>.
\<close>

datatype call =
    DbConnect
  | StartSession
  | StartTransaction
  | UserFindOne_email string
  | UserFindOne_username string
  | BcryptHash string nat
  | UserCreate user_doc
  | UserUpdateOne nat updated_data
  | AccountFindOne nat string string
  | AccountCreate account_doc
  | CommitTransaction
  | AbortTransaction
  | SignIn string string string
  | EndSession

type_synonym trace = "(call \<times> exn option) list"

text \<open>
  The environment of one request. The repository's own \<^verbatim>\<open>action\<close> handler and zod
  schemas are not among the sources, and \<^verbatim>\<open>slugify\<close> and \<^verbatim>\<open>bcrypt.hash\<close> are
  libraries: all four are parameters (\<open>bcrypt_hash\<close> is what the library answers in this
  request, with the salt it drew). \<open>rejects\<close> decides, from what has happened so far,
  whether an awaited call fails and with what; nothing is assumed about it.
\<close>

record env =
  action :: "auth_credentials \<Rightarrow> exn + auth_credentials"
  SignInWithOAuthSchema :: "oauth_request \<Rightarrow> field_errors option"
  slugify :: "string \<Rightarrow> string"
  bcrypt_hash :: "string \<Rightarrow> nat \<Rightarrow> string"
  rejects :: "trace \<Rightarrow> call \<Rightarrow> exn option"

text \<open>
  The unique indexes of the two collections. The schema files
  (\<^verbatim>\<open>@/database/user.model\<close>, \<^verbatim>\<open>@/database/account.model\<close>) are not among the
  sources, so which indexes exist is a parameter of the store.
\<close>

record indexes =
  email_unique :: bool
  username_unique :: bool
  account_unique :: bool

definition spec_indexes :: indexes where
  \<comment> \<open>Modelled from the spec: the schema declarations of the User and Account collections
      are missing; the specification lists unique indexes on the User's email and username
      and on the Account's (provider, providerAccountId).\<close>
  "spec_indexes = \<lparr>email_unique = True, username_unique = True, account_unique = True\<rparr>"


section \<open>State, exceptions, try/catch/finally\<close>

text \<open>
  \<open>db\<close> is the committed content of the store; \<open>txn\<close> is the view of the session's open
  transaction (a snapshot of \<open>db\<close> plus the session's own writes), \<open>None\<close> when no
  transaction is open. \<open>transactionCommited\<close> is the local flag of the sign-up action.
\<close>

record state =
  db :: database
  txn :: "database option"
  transactionCommited :: bool
  trace :: trace

datatype 'a result = Value 'a | Throw exn

type_synonym 'a prog = "state \<Rightarrow> 'a result \<times> state"

definition ret :: "'a \<Rightarrow> 'a prog" where
  "ret x = (\<lambda>s. (Value x, s))"

definition throw :: "exn \<Rightarrow> 'a prog" where
  "throw e = (\<lambda>s. (Throw e, s))"

definition andThen :: "'a prog \<Rightarrow> ('a \<Rightarrow> 'b prog) \<Rightarrow> 'b prog" where
  "andThen m f = (\<lambda>s. case m s of (Value x, s') \<Rightarrow> f x s' | (Throw e, s') \<Rightarrow> (Throw e, s'))"

definition tryCatch :: "'a prog \<Rightarrow> (exn \<Rightarrow> 'a prog) \<Rightarrow> 'a prog" where
  "tryCatch m h = (\<lambda>s. case m s of (Value x, s') \<Rightarrow> (Value x, s') | (Throw e, s') \<Rightarrow> h e s')"

definition tryFinally :: "'a prog \<Rightarrow> unit prog \<Rightarrow> 'a prog" where
  \<comment> \<open>the \<^verbatim>\<open>finally\<close> block runs however the body ended; if it throws, its exception
      replaces the body's completion\<close>
  "tryFinally m fin = (\<lambda>s. case m s of (r, s') \<Rightarrow>
     (case fin s' of (Value _, s'') \<Rightarrow> (r, s'') | (Throw e, s'') \<Rightarrow> (Throw e, s'')))"

definition record_call :: "call \<Rightarrow> exn option \<Rightarrow> state \<Rightarrow> state" where
  "record_call c r s = s\<lparr>trace := trace s @ [(c, r)]\<rparr>"

definition call :: "env \<Rightarrow> call \<Rightarrow> unit prog" where
  "call E c = (\<lambda>s. case rejects E (trace s) c of
       None \<Rightarrow> (Value (), record_call c None s)
     | Some e \<Rightarrow> (Throw e, record_call c (Some e) s))"

section \<open>The store behind a session\<close>

definition view :: "state \<Rightarrow> database" where
  "view s = (case txn s of Some t \<Rightarrow> t | None \<Rightarrow> db s)"

definition session_write :: "(database \<Rightarrow> database) \<Rightarrow> state \<Rightarrow> state" where
  "session_write f s = (case txn s of Some t \<Rightarrow> s\<lparr>txn := Some (f t)\<rparr> | None \<Rightarrow> s\<lparr>db := f (db s)\<rparr>)"

definition startSession :: "env \<Rightarrow> unit prog" where
  "startSession E = call E StartSession"

definition startTransaction :: "env \<Rightarrow> unit prog" where
  \<comment> \<open>\<^verbatim>\<open>session.startTransaction()\<close> is synchronous, and like every other call of the
      driver it can throw\<close>
  "startTransaction E =
     andThen (call E StartTransaction) (\<lambda>_ s. (Value (), s\<lparr>txn := Some (db s)\<rparr>))"

definition commitTransaction :: "env \<Rightarrow> unit prog" where
  "commitTransaction E =
     andThen (call E CommitTransaction) (\<lambda>_ s. (Value (), s\<lparr>db := view s, txn := None\<rparr>))"

definition abortTransaction :: "env \<Rightarrow> unit prog" where
  "abortTransaction E =
     andThen (call E AbortTransaction) (\<lambda>_ s. (Value (), s\<lparr>txn := None\<rparr>))"

definition endSession :: "unit prog" where
  \<comment> \<open>ending a session discards a transaction that is still open; the driver swallows
      the errors of this call\<close>
  "endSession = (\<lambda>s. (Value (), (record_call EndSession None s)\<lparr>txn := None\<rparr>))"

definition duplicate_key :: exn where
  "duplicate_key = External ''MongoServerError'' ''E11000 duplicate key error''"

definition new_ObjectId :: "database \<Rightarrow> nat" where
  \<comment> \<open>a document's \<^verbatim>\<open>_id\<close> is fresh\<close>
  "new_ObjectId d = Suc (fold max (map user_id (users d)) 0)"

definition User_findOne_email :: "env \<Rightarrow> string \<Rightarrow> user_doc option prog" where
  "User_findOne_email E e =
     andThen (call E (UserFindOne_email e))
       (\<lambda>_ s. (Value (find (\<lambda>u. user_email u = e) (users (view s))), s))"

definition User_findOne_username :: "env \<Rightarrow> string \<Rightarrow> user_doc option prog" where
  "User_findOne_username E n =
     andThen (call E (UserFindOne_username n))
       (\<lambda>_ s. (Value (find (\<lambda>u. user_username u = n) (users (view s))), s))"

definition user_index_violation :: "indexes \<Rightarrow> user_doc \<Rightarrow> database \<Rightarrow> bool" where
  "user_index_violation ix u d =
     ((email_unique ix \<and> user_email u \<in> set (map user_email (users d))) \<or>
      (username_unique ix \<and> user_username u \<in> set (map user_username (users d))))"

definition User_create ::
  "indexes \<Rightarrow> env \<Rightarrow> string \<Rightarrow> string \<Rightarrow> string \<Rightarrow> string option \<Rightarrow> user_doc prog" where
  "User_create ix E nm un em im = (\<lambda>s.
     let u = \<lparr>user_id = new_ObjectId (view s), user_name = nm, user_username = un,
              user_email = em, user_image = im\<rparr>
     in if user_index_violation ix u (view s)
        then (Throw duplicate_key, record_call (UserCreate u) (Some duplicate_key) s)
        else andThen (call E (UserCreate u))
               (\<lambda>_ s'. (Value u, session_write (\<lambda>d. d\<lparr>users := users d @ [u]\<rparr>) s')) s)"

fun update_first :: "('a \<Rightarrow> bool) \<Rightarrow> ('a \<Rightarrow> 'a) \<Rightarrow> 'a list \<Rightarrow> 'a list" where
  "update_first P f [] = []"
| "update_first P f (x # xs) = (if P x then f x # xs else x # update_first P f xs)"

definition apply_set :: "updated_data \<Rightarrow> user_doc \<Rightarrow> user_doc" where
  \<comment> \<open>\<^verbatim>\<open>{ $set: updatedData }\<close>: the keys present are overwritten, nothing else\<close>
  "apply_set upd u =
     u\<lparr>user_name := (case upd_name upd of Some n \<Rightarrow> n | None \<Rightarrow> user_name u),
       user_image := (case upd_image upd of Some i \<Rightarrow> Some i | None \<Rightarrow> user_image u)\<rparr>"

definition User_updateOne :: "env \<Rightarrow> nat \<Rightarrow> updated_data \<Rightarrow> unit prog" where
  "User_updateOne E i upd =
     andThen (call E (UserUpdateOne i upd))
       (\<lambda>_ s. (Value (),
          session_write (\<lambda>d. d\<lparr>users := update_first (\<lambda>u. user_id u = i) (apply_set upd) (users d)\<rparr>) s))"

definition Account_findOne ::
  "env \<Rightarrow> nat \<Rightarrow> string \<Rightarrow> string \<Rightarrow> account_doc option prog" where
  "Account_findOne E uid p pid =
     andThen (call E (AccountFindOne uid p pid))
       (\<lambda>_ s. (Value (find (\<lambda>a. account_userId a = uid \<and> account_provider a = p \<and>
                                account_providerAccountId a = pid) (accounts (view s))), s))"

definition account_key :: "account_doc \<Rightarrow> string \<times> string" where
  "account_key a = (account_provider a, account_providerAccountId a)"

definition Account_create :: "indexes \<Rightarrow> env \<Rightarrow> account_doc \<Rightarrow> unit prog" where
  "Account_create ix E a = (\<lambda>s.
     if account_unique ix \<and> account_key a \<in> set (map account_key (accounts (view s)))
     then (Throw duplicate_key, record_call (AccountCreate a) (Some duplicate_key) s)
     else andThen (call E (AccountCreate a))
            (\<lambda>_ s'. (Value (), session_write (\<lambda>d. d\<lparr>accounts := accounts d @ [a]\<rparr>) s')) s)"

definition bcrypt_hash_call :: "env \<Rightarrow> string \<Rightarrow> nat \<Rightarrow> string prog" where
  "bcrypt_hash_call E pw rounds =
     andThen (call E (BcryptHash pw rounds)) (\<lambda>_. ret (bcrypt_hash E pw rounds))"

section \<open>signUpWithCredentials\<close>

text \<open>
  What the action returns: \<^verbatim>\<open>{ success: true }\<close> or \<^verbatim>\<open>handleError(error)\<close>, the
  error response built from the exception it was given.
\<close>

datatype response = Success | HandleError exn

definition signUp_commit_and_signIn :: "env \<Rightarrow> auth_credentials \<Rightarrow> response prog" where
  \<comment> \<open>the body of the inner \<^verbatim>\<open>try\<close>\<close>
  "signUp_commit_and_signIn E p =
     andThen (commitTransaction E) (\<lambda>_.
     andThen (\<lambda>s. (Value (), s\<lparr>transactionCommited := True\<rparr>)) (\<lambda>_.
     andThen (call E (SignIn ''credentials'' (email p) (password p))) (\<lambda>_.
     ret Success)))"

definition signUp_catch :: "env \<Rightarrow> exn \<Rightarrow> response prog" where
  \<comment> \<open>both \<^verbatim>\<open>catch\<close> blocks of the action have this body\<close>
  "signUp_catch E error =
     andThen (\<lambda>s. if \<not> transactionCommited s then abortTransaction E s else (Value (), s)) (\<lambda>_.
     ret (HandleError error))"

definition signUp_try :: "indexes \<Rightarrow> env \<Rightarrow> auth_credentials \<Rightarrow> response prog" where
  \<comment> \<open>the body of the outer \<^verbatim>\<open>try\<close>\<close>
  "signUp_try ix E p =
     andThen (User_findOne_email E (email p)) (\<lambda>existingUser.
     if existingUser \<noteq> None then throw (Error ''User already exists'') else
     andThen (User_findOne_username E (username p)) (\<lambda>existingUsername.
     if existingUsername \<noteq> None then throw (Error ''Username already exists'') else
     andThen (bcrypt_hash_call E (password p) 12) (\<lambda>hashedPassword.
     andThen (User_create ix E (name p) (username p) (email p) None) (\<lambda>newUser.
     andThen (Account_create ix E
                \<lparr>account_userId = user_id newUser, account_name = name p,
                 account_image = None, account_provider = ''credentials'',
                 account_providerAccountId = email p,
                 account_password = Some hashedPassword\<rparr>) (\<lambda>_.
     tryCatch (signUp_commit_and_signIn E p) (signUp_catch E))))))"

definition signUpWithCredentials ::
  "indexes \<Rightarrow> env \<Rightarrow> auth_credentials \<Rightarrow> response prog" where
  "signUpWithCredentials ix E params =
     (case action E params of
        Inl validationResult \<Rightarrow> ret (HandleError validationResult)
      | Inr p \<Rightarrow>
          andThen (startSession E) (\<lambda>_.
          andThen (startTransaction E) (\<lambda>_.
          andThen (\<lambda>s. (Value (), s\<lparr>transactionCommited := False\<rparr>)) (\<lambda>_.
          tryFinally (tryCatch (signUp_try ix E p) (signUp_catch E)) endSession))))"

text \<open>A request starts with no transaction open and nothing recorded.\<close>

definition start :: "database \<Rightarrow> state" where
  "start d = \<lparr>db = d, txn = None, transactionCommited = False, trace = []\<rparr>"

section \<open>POST of signin-with-oauth\<close>

definition updatedData :: "user_doc \<Rightarrow> string \<Rightarrow> string \<Rightarrow> updated_data" where
  \<comment> \<open>\<^verbatim>\<open>if (existingUser.name !== name) updatedData.name = name;\<close> and the same for the
      image\<close>
  "updatedData existingUser nm im =
     \<lparr>upd_name = (if user_name existingUser \<noteq> nm then Some nm else None),
      upd_image = (if user_image existingUser \<noteq> Some im then Some im else None)\<rparr>"

definition keys_length :: "updated_data \<Rightarrow> nat" where
  \<comment> \<open>\<^verbatim>\<open>Object.keys(updatedData).length\<close>\<close>
  "keys_length upd =
     (if upd_name upd = None then 0 else 1) + (if upd_image upd = None then 0 else 1)"

definition POST_try :: "indexes \<Rightarrow> env \<Rightarrow> oauth_request \<Rightarrow> response prog" where
  "POST_try ix E req =
     (case SignInWithOAuthSchema E req of
        Some fieldErrors \<Rightarrow> throw (ValidationError fieldErrors)
      | None \<Rightarrow>
          let nm = ou_name (user req); em = ou_email (user req); im = ou_image (user req);
              slugifiedUsername = slugify E (ou_username (user req))
          in
          andThen (User_findOne_email E em) (\<lambda>found.
          andThen (case found of
                     None \<Rightarrow> User_create ix E nm slugifiedUsername em (Some im)
                   | Some existingUser \<Rightarrow>
                       andThen (if keys_length (updatedData existingUser nm im) > 0
                                then User_updateOne E (user_id existingUser)
                                       (updatedData existingUser nm im)
                                else ret ()) (\<lambda>_.
                       ret existingUser)) (\<lambda>existingUser.
          andThen (Account_findOne E (user_id existingUser) (provider req)
                     (providerAccountId req)) (\<lambda>existingAccount.
          andThen (if existingAccount = None
                   then Account_create ix E
                          \<lparr>account_userId = user_id existingUser, account_name = nm,
                           account_image = Some im, account_provider = provider req,
                           account_providerAccountId = providerAccountId req,
                           account_password = None\<rparr>
                   else ret ()) (\<lambda>_.
          andThen (commitTransaction E) (\<lambda>_.
          ret Success))))))"

definition POST_catch :: "env \<Rightarrow> exn \<Rightarrow> response prog" where
  "POST_catch E error = andThen (abortTransaction E) (\<lambda>_. ret (HandleError error))"

definition POST :: "indexes \<Rightarrow> env \<Rightarrow> oauth_request \<Rightarrow> response prog" where
  "POST ix E req =
     andThen (call E DbConnect) (\<lambda>_.
     andThen (startSession E) (\<lambda>_.
     andThen (startTransaction E) (\<lambda>_.
     tryFinally (tryCatch (POST_try ix E req) (POST_catch E)) endSession)))"

text \<open>
  A sequence of calls to the route, each against the store the previous one left, each
  with its own environment.
\<close>

fun POST_sequence :: "indexes \<Rightarrow> (env \<times> oauth_request) list \<Rightarrow> database \<Rightarrow> database" where
  "POST_sequence ix [] d = d"
| "POST_sequence ix ((E, req) # rest) d = POST_sequence ix rest (db (snd (POST ix E req (start d))))"

section \<open>The jwt callback\<close>

record jwt_token =
  token_email :: string
  token_sub :: "string option"

record jwt_account =
  jwt_type :: string
  jwt_providerAccountId :: string

definition getByProvider_argument :: "jwt_token \<Rightarrow> jwt_account \<Rightarrow> string" where
  \<comment> \<open>\<^verbatim>\<open>account.type === "credentials" ? token.email! : account.providerAccountId\<close>\<close>
  "getByProvider_argument token account =
     (if jwt_type account = ''credentials'' then token_email token
      else jwt_providerAccountId account)"

definition jwt ::
  "(string \<Rightarrow> bool \<times> account_doc option) \<Rightarrow> (nat \<Rightarrow> string) \<Rightarrow> jwt_token \<Rightarrow>
     jwt_account option \<Rightarrow> jwt_token" where
  \<comment> \<open>\<^verbatim>\<open>api.accounts.getByProvider\<close> and the \<^verbatim>\<open>toString\<close> of an ObjectId are
      parameters; an account document always carries its \<^verbatim>\<open>userId\<close>\<close>
  "jwt getByProvider toString token account =
     (case account of
        None \<Rightarrow> token
      | Some a \<Rightarrow>
          (case getByProvider (getByProvider_argument token a) of
             (success, Some existingAccount) \<Rightarrow>
               if \<not> success then token
               else token\<lparr>token_sub := Some (toString (account_userId existingAccount))\<rparr>
           | (success, None) \<Rightarrow> token))"

section \<open>Properties of traces and stores\<close>

definition is_user_write :: "call \<Rightarrow> bool" where
  "is_user_write c = (case c of UserCreate _ \<Rightarrow> True | UserUpdateOne _ _ \<Rightarrow> True | _ \<Rightarrow> False)"

definition is_signIn :: "call \<Rightarrow> bool" where
  "is_signIn c = (case c of SignIn _ _ _ \<Rightarrow> True | _ \<Rightarrow> False)"

text \<open>
  Reading a trace from its start, no \<^verbatim>\<open>signIn\<close> comes before the first
  \<^verbatim>\<open>commitTransaction\<close> that returned.
\<close>

fun commit_before_signIn :: "trace \<Rightarrow> bool" where
  "commit_before_signIn [] = True"
| "commit_before_signIn ((c, res) # t) =
     (if c = CommitTransaction \<and> res = None then True
      else \<not> is_signIn c \<and> commit_before_signIn t)"

definition no_call_rejected :: "trace \<Rightarrow> bool" where
  \<comment> \<open>every call of the run returned\<close>
  "no_call_rejected t = list_all (\<lambda>(c, res). res = None) t"


definition accounts_with_key :: "string \<Rightarrow> string \<Rightarrow> database \<Rightarrow> nat" where
  "accounts_with_key p pid d = length (filter (\<lambda>a. account_key a = (p, pid)) (accounts d))"





text \<open>The documents the OAuth route creates.\<close>

definition POST_user_doc :: "env \<Rightarrow> oauth_request \<Rightarrow> database \<Rightarrow> user_doc" where
  "POST_user_doc E req d =
     \<lparr>user_id = new_ObjectId d, user_name = ou_name (user req),
      user_username = slugify E (ou_username (user req)),
      user_email = ou_email (user req), user_image = Some (ou_image (user req))\<rparr>"

definition POST_account_doc :: "oauth_request \<Rightarrow> nat \<Rightarrow> account_doc" where
  "POST_account_doc req uid =
     \<lparr>account_userId = uid, account_name = ou_name (user req),
      account_image = Some (ou_image (user req)), account_provider = provider req,
      account_providerAccountId = providerAccountId req, account_password = None\<rparr>"

section \<open>Sample requests\<close>

text \<open>
  A sample environment for evaluating the flows: every input passes validation and no
  call fails. Its \<open>slugify\<close> lower-cases ASCII letters, which is all that
  \<^verbatim>\<open>slugify(s, { lower: true, strict: true, trim: true })\<close> does to a string of ASCII
  letters and digits; its \<open>bcrypt_hash\<close> is a stand-in that answers with one fixed digest.
\<close>

definition ascii_lower :: "char \<Rightarrow> char" where
  "ascii_lower c =
     (case map_of (zip ''ABCDEFGHIJKLMNOPQRSTUVWXYZ'' ''abcdefghijklmnopqrstuvwxyz'') c of
        Some l \<Rightarrow> l | None \<Rightarrow> c)"

definition sample_env :: env where
  "sample_env =
     \<lparr>action = Inr, SignInWithOAuthSchema = (\<lambda>_. None), slugify = map ascii_lower,
      bcrypt_hash = (\<lambda>pw rounds. ''$2b$12$N9qo8uLOickgx2ZMRZoMye''), rejects = (\<lambda>_ _. None)\<rparr>"

definition signIn_fails :: "trace \<Rightarrow> call \<Rightarrow> exn option" where
  "signIn_fails t c = (if is_signIn c then Some (External ''CredentialsSignin'' []) else None)"

definition startTransaction_fails :: "trace \<Rightarrow> call \<Rightarrow> exn option" where
  "startTransaction_fails t c =
     (if c = StartTransaction then Some (External ''MongoTransactionError'' []) else None)"

definition empty_db :: database where
  "empty_db = \<lparr>users = [], accounts = []\<rparr>"

definition ana :: auth_credentials where
  "ana = \<lparr>name = ''Ana'', username = ''ana'', email = ''a@x.com'', password = ''secret123''\<rparr>"

definition ana_again :: auth_credentials where
  \<comment> \<open>another sign-up under Ana's username, with a fresh email\<close>
  "ana_again = \<lparr>name = ''Ana Two'', username = ''ana'', email = ''b@x.com'',
                 password = ''secret456''\<rparr>"

definition requires_password :: "auth_credentials \<Rightarrow> exn + auth_credentials" where
  \<comment> \<open>a stand-in for \<^verbatim>\<open>action\<close> with a schema that rejects an empty password\<close>
  "requires_password p =
     (if password p = [] then Inl (ValidationError [(''password'', [''Password is required''])])
      else Inr p)"

definition ana_user :: user_doc where
  "ana_user = \<lparr>user_id = 1, user_name = ''Ana'', user_username = ''ana'',
                user_email = ''a@x.com'', user_image = None\<rparr>"

definition ana_credentials :: account_doc where
  "ana_credentials =
     \<lparr>account_userId = 1, account_name = ''Ana'', account_image = None,
      account_provider = ''credentials'', account_providerAccountId = ''a@x.com'',
      account_password = Some ''$2b$12$N9qo8uLOickgx2ZMRZoMye''\<rparr>"

definition ana_db :: database where
  \<comment> \<open>the store after Ana has signed up\<close>
  "ana_db = \<lparr>users = [ana_user], accounts = [ana_credentials]\<rparr>"

definition github_ana :: oauth_request where
  "github_ana =
     \<lparr>provider = ''github'', providerAccountId = ''123'',
      user = \<lparr>ou_name = ''Ana Maria'', ou_username = ''ana'', ou_email = ''a@x.com'',
               ou_image = ''https://x.com/a.png''\<rparr>\<rparr>"


definition ana_github_user :: user_doc where
  "ana_github_user = \<lparr>user_id = 1, user_name = ''Ana Maria'', user_username = ''ana'',
                       user_email = ''a@x.com'', user_image = Some ''https://x.com/a.png''\<rparr>"

definition ana_github :: account_doc where
  "ana_github =
     \<lparr>account_userId = 1, account_name = ''Ana Maria'',
      account_image = Some ''https://x.com/a.png'', account_provider = ''github'',
      account_providerAccountId = ''123'', account_password = None\<rparr>"

definition ana_github_db :: database where
  \<comment> \<open>the store after Ana has also signed in with GitHub\<close>
  "ana_github_db = \<lparr>users = [ana_github_user], accounts = [ana_credentials, ana_github]\<rparr>"

definition sample_getByProvider :: "database \<Rightarrow> string \<Rightarrow> bool \<times> account_doc option" where
  \<comment> \<open>a stand-in for \<^verbatim>\<open>api.accounts.getByProvider\<close>: the first account with the given
      \<^verbatim>\<open>providerAccountId\<close>\<close>
  "sample_getByProvider d k =
     (case find (\<lambda>a. account_providerAccountId a = k) (accounts d) of
        None \<Rightarrow> (False, None) | Some a \<Rightarrow> (True, Some a))"

definition sample_toString :: "nat \<Rightarrow> string" where
  \<comment> \<open>a stand-in for the \<^verbatim>\<open>toString\<close> of an ObjectId\<close>
  "sample_toString n = replicate n (CHR ''1'')"

section \<open>Unfolding the flows\<close>

lemmas prims = ret_def throw_def andThen_def tryCatch_def tryFinally_def record_call_def call_def
  view_def session_write_def startSession_def startTransaction_def commitTransaction_def
  abortTransaction_def endSession_def User_findOne_email_def User_findOne_username_def
  User_create_def User_updateOne_def Account_findOne_def Account_create_def bcrypt_hash_call_def
  start_def Let_def

lemmas signUp_defs = signUpWithCredentials_def signUp_try_def signUp_catch_def
  signUp_commit_and_signIn_def

lemmas POST_defs = POST_def POST_try_def POST_catch_def

lemmas flow_splits = sum.splits option.splits if_splits prod.splits result.splits

lemmas sample_defs = sample_env_def ana_def ana_db_def ana_user_def ana_credentials_def
  empty_db_def github_ana_def ana_github_db_def ana_github_user_def ana_github_def
  spec_indexes_def user_index_violation_def new_ObjectId_def account_key_def

lemmas POST_eval = POST_defs prims sample_defs keys_length_def updatedData_def apply_set_def

section \<open>The sample runs\<close>

lemma sample_signUp_succeeds:
  "signUpWithCredentials spec_indexes sample_env ana (start empty_db) =
     (Value Success,
      \<lparr>db = ana_db, txn = None, transactionCommited = True,
       trace = [(StartSession, None), (StartTransaction, None),
                (UserFindOne_email ''a@x.com'', None), (UserFindOne_username ''ana'', None),
                (BcryptHash ''secret123'' 12, None), (UserCreate ana_user, None),
                (AccountCreate ana_credentials, None), (CommitTransaction, None),
                (SignIn ''credentials'' ''a@x.com'' ''secret123'', None),
                (EndSession, None)]\<rparr>)"
  by (simp add: signUp_defs prims sample_defs)

lemma sample_signUp_conflict:
  "signUpWithCredentials spec_indexes sample_env ana (start ana_db) =
     (Value (HandleError (Error ''User already exists'')),
      \<lparr>db = ana_db, txn = None, transactionCommited = False,
       trace = [(StartSession, None), (StartTransaction, None),
                (UserFindOne_email ''a@x.com'', None), (AbortTransaction, None),
                (EndSession, None)]\<rparr>)"
  by (simp add: signUp_defs prims sample_defs)

lemma sample_signUp_username_conflict:
  "signUpWithCredentials spec_indexes sample_env ana_again (start ana_db) =
     (Value (HandleError (Error ''Username already exists'')),
      \<lparr>db = ana_db, txn = None, transactionCommited = False,
       trace = [(StartSession, None), (StartTransaction, None),
                (UserFindOne_email ''b@x.com'', None), (UserFindOne_username ''ana'', None),
                (AbortTransaction, None), (EndSession, None)]\<rparr>)"
  by (simp add: signUp_defs prims sample_defs ana_again_def)

lemma sample_signUp_signIn_fails:
  "signUpWithCredentials spec_indexes (sample_env\<lparr>rejects := signIn_fails\<rparr>) ana
       (start empty_db) =
     (Value (HandleError (External ''CredentialsSignin'' [])),
      \<lparr>db = ana_db, txn = None, transactionCommited = True,
       trace = [(StartSession, None), (StartTransaction, None),
                (UserFindOne_email ''a@x.com'', None), (UserFindOne_username ''ana'', None),
                (BcryptHash ''secret123'' 12, None), (UserCreate ana_user, None),
                (AccountCreate ana_credentials, None), (CommitTransaction, None),
                (SignIn ''credentials'' ''a@x.com'' ''secret123'',
                   Some (External ''CredentialsSignin'' [])),
                (EndSession, None)]\<rparr>)"
  by (simp add: signUp_defs prims sample_defs signIn_fails_def is_signIn_def)

lemma sample_POST_links:
  "POST ix sample_env github_ana (start ana_db) =
     (Value Success,
      \<lparr>db = ana_github_db, txn = None, transactionCommited = False,
       trace = [(DbConnect, None), (StartSession, None), (StartTransaction, None),
                (UserFindOne_email ''a@x.com'', None),
                (UserUpdateOne 1 \<lparr>upd_name = Some ''Ana Maria'',
                                   upd_image = Some ''https://x.com/a.png''\<rparr>, None),
                (AccountFindOne 1 ''github'' ''123'', None),
                (AccountCreate ana_github, None), (CommitTransaction, None),
                (EndSession, None)]\<rparr>)"
  by (simp add: POST_eval)

lemma sample_POST_again:
  "POST ix sample_env github_ana (start ana_github_db) =
     (Value Success,
      \<lparr>db = ana_github_db, txn = None, transactionCommited = False,
       trace = [(DbConnect, None), (StartSession, None), (StartTransaction, None),
                (UserFindOne_email ''a@x.com'', None),
                (AccountFindOne 1 ''github'' ''123'', None), (CommitTransaction, None),
                (EndSession, None)]\<rparr>)"
  by (simp add: POST_eval)

section \<open>Lists of documents\<close>

lemma update_first_frame:
  "map user_id (update_first P (apply_set upd) xs) = map user_id xs"
  "map user_email (update_first P (apply_set upd) xs) = map user_email xs"
  "map user_username (update_first P (apply_set upd) xs) = map user_username xs"
  by (induction xs) (auto simp: apply_set_def)

lemma update_first_name_frame:
  "upd_name upd = None \<Longrightarrow>
     map user_name (update_first P (apply_set upd) xs) = map user_name xs"
  by (induction xs) (auto simp: apply_set_def)

lemma update_first_image_frame:
  "upd_image upd = None \<Longrightarrow>
     map user_image (update_first P (apply_set upd) xs) = map user_image xs"
  by (induction xs) (auto simp: apply_set_def)



lemma distinct_count_le_1:
  "distinct (map f xs) \<Longrightarrow> length (filter (\<lambda>a. f a = k) xs) \<le> 1"
  by (induction xs) (auto simp: filter_empty_conv image_iff)

section \<open>Sign-up: what reaches the store\<close>

lemma signUp_uncommitted:
  assumes "signUpWithCredentials ix E params (start d) = (r, s')"
      and "(CommitTransaction, None) \<notin> set (trace s')"
  shows "db s' = d \<and> txn s' = None"
  using assms unfolding signUp_defs prims
  by (auto split: flow_splits)

lemma signUp_abort_called:
  assumes "signUpWithCredentials ix E params (start d) = (r, s')"
      and "(CommitTransaction, None) \<notin> set (trace s')"
      and "(StartTransaction, None) \<in> set (trace s')"
  shows "AbortTransaction \<in> fst ` set (trace s')"
  using assms unfolding signUp_defs prims
  by (auto split: flow_splits)

lemma signUp_committed_store:
  assumes "signUpWithCredentials ix E params (start d) = (r, s')"
      and "action E params = Inr p"
      and "(CommitTransaction, None) \<in> set (trace s')"
  shows "users (db s') = users d @
           [\<lparr>user_id = new_ObjectId d, user_name = name p, user_username = username p,
             user_email = email p, user_image = None\<rparr>]
       \<and> accounts (db s') = accounts d @
           [\<lparr>account_userId = new_ObjectId d, account_name = name p, account_image = None,
             account_provider = ''credentials'', account_providerAccountId = email p,
             account_password = Some (bcrypt_hash E (password p) 12)\<rparr>]"
  using assms unfolding signUp_defs prims
  by (auto split: flow_splits)

lemma signUp_commit_needs_valid:
  assumes "signUpWithCredentials ix E params (start d) = (r, s')"
      and "(CommitTransaction, None) \<in> set (trace s')"
  shows "\<exists>p. action E params = Inr p"
  using assms unfolding signUpWithCredentials_def
  by (cases "action E params") (auto simp: ret_def start_def)

lemma signUp_success_committed:
  assumes "signUpWithCredentials ix E params (start d) = (Value Success, s')"
  shows "(CommitTransaction, None) \<in> set (trace s')"
  using assms unfolding signUp_defs prims
  by (auto split: flow_splits)

lemma signUp_hash_call:
  assumes "signUpWithCredentials ix E params (start d) = (r, s')"
      and "action E params = Inr p"
      and "(BcryptHash pw n, res) \<in> set (trace s')"
  shows "pw = password p \<and> n = 12"
  using assms unfolding signUp_defs prims
  by (auto split: flow_splits)

lemma signUp_committed_hash:
  assumes "signUpWithCredentials ix E params (start d) = (r, s')"
      and "action E params = Inr p"
      and "(CommitTransaction, None) \<in> set (trace s')"
  shows "(BcryptHash (password p) 12, None) \<in> set (trace s')"
  using assms unfolding signUp_defs prims
  by (auto split: flow_splits)

lemma signUp_signIn_rejected:
  assumes "signUpWithCredentials ix E params (start d) = (r, s')"
      and "action E params = Inr p"
      and "(SignIn ''credentials'' (email p) (password p), Some e) \<in> set (trace s')"
  shows "r = Value (HandleError e) \<and> (CommitTransaction, None) \<in> set (trace s')
         \<and> AbortTransaction \<notin> fst ` set (trace s')"
  using assms unfolding signUp_defs prims
  by (auto split: flow_splits)

section \<open>Sign-up: failure before the commit\<close>

text \<open>
  Claim C1. For every sign-up request, whatever the environment does: when the run ends
  without a successful \<^verbatim>\<open>commitTransaction\<close> (validation error, duplicate email,
  duplicate username, a failing hash, create or commit), the committed store is exactly
  what it was, so no User and no Account is persisted; no transaction is left open; and
  if a transaction had been started, \<^verbatim>\<open>abortTransaction\<close> was called. (On a validation
  error the action returns before it opens a session, so there is no transaction to
  abort.)
\<close>

theorem signUp_failure_before_commit_persists_nothing:
  assumes "signUpWithCredentials ix E params (start d) = (r, s')"
      and "(CommitTransaction, None) \<notin> set (trace s')"
  shows "db s' = d \<and> txn s' = None \<and>
         ((StartTransaction, None) \<in> set (trace s') \<longrightarrow>
            AbortTransaction \<in> fst ` set (trace s'))"
  using signUp_uncommitted [OF assms] signUp_abort_called [OF assms] by blast

theorem signUp_failure_before_commit_persists_nothing_witness:
  "(CommitTransaction, None) \<notin>
     set (trace (snd (signUpWithCredentials spec_indexes sample_env ana (start ana_db))))
   \<and> db (snd (signUpWithCredentials spec_indexes sample_env ana (start ana_db))) = ana_db
   \<and> (StartTransaction, None) \<in>
     set (trace (snd (signUpWithCredentials spec_indexes sample_env ana (start ana_db))))
   \<and> (AbortTransaction, None) \<in>
     set (trace (snd (signUpWithCredentials spec_indexes sample_env ana (start ana_db))))"
  using signUp_failure_before_commit_persists_nothing [OF sample_signUp_conflict]
  unfolding sample_signUp_conflict by simp

section \<open>Sign-up: an email or username that is already registered\<close>

lemma signUp_registered_store:
  assumes "signUpWithCredentials ix E params (start d) = (r, s')"
      and "action E params = Inr p"
      and "find (\<lambda>u. user_email u = email p) (users d) \<noteq> None
           \<or> find (\<lambda>u. user_username u = username p) (users d) \<noteq> None"
  shows "db s' = d"
  using assms unfolding signUp_defs prims
  by (auto split: flow_splits)

lemma signUp_email_registered_response:
  assumes "signUpWithCredentials ix E params (start d) = (r, s')"
      and "action E params = Inr p"
      and "find (\<lambda>u. user_email u = email p) (users d) \<noteq> None"
      and "no_call_rejected (trace s')"
  shows "r = Value (HandleError (Error ''User already exists''))"
  using assms unfolding signUp_defs prims no_call_rejected_def
  by (auto split: flow_splits)

lemma signUp_username_registered_response:
  assumes "signUpWithCredentials ix E params (start d) = (r, s')"
      and "action E params = Inr p"
      and "find (\<lambda>u. user_email u = email p) (users d) = None"
      and "find (\<lambda>u. user_username u = username p) (users d) \<noteq> None"
      and "no_call_rejected (trace s')"
  shows "r = Value (HandleError (Error ''Username already exists''))"
  using assms unfolding signUp_defs prims no_call_rejected_def
  by (auto split: flow_splits)

lemma find_registered_iff:
  "find (\<lambda>u. f u = x) xs \<noteq> None \<longleftrightarrow> x \<in> f ` set xs"
  by (auto simp: find_None_iff)

text \<open>
  Claim C2, as amended. For every sign-up attempt that has passed validation and whose
  email or username is already registered, no User and no Account is created, whatever
  the environment does. Unless one of the run's own calls fails, the action returns
  \<^verbatim>\<open>handleError\<close> of the plain \<^verbatim>\<open>Error\<close> it threw: \<^verbatim>\<open>"User already exists"\<close> for a
  registered email, \<^verbatim>\<open>"Username already exists"\<close> for a free email and a registered
  username.
\<close>

theorem signUp_registered_is_rejected:
  assumes "signUpWithCredentials ix E params (start d) = (r, s')"
      and "action E params = Inr p"
      and "email p \<in> user_email ` set (users d) \<or> username p \<in> user_username ` set (users d)"
  shows "db s' = d \<and>
         (no_call_rejected (trace s') \<longrightarrow>
            r = Value (HandleError (Error (if email p \<in> user_email ` set (users d)
                 then ''User already exists'' else ''Username already exists''))))"
proof -
  from assms(3)
  have reg: "find (\<lambda>u. user_email u = email p) (users d) \<noteq> None
             \<or> find (\<lambda>u. user_username u = username p) (users d) \<noteq> None"
    using find_registered_iff [of user_email "email p" "users d"]
      find_registered_iff [of user_username "username p" "users d"] by blast
  have store: "db s' = d"
    using signUp_registered_store [OF assms(1,2) reg] .
  have response: "r = Value (HandleError (Error (if email p \<in> user_email ` set (users d)
                 then ''User already exists'' else ''Username already exists'')))"
    if ok: "no_call_rejected (trace s')"
  proof (cases "email p \<in> user_email ` set (users d)")
    case True
    then have "find (\<lambda>u. user_email u = email p) (users d) \<noteq> None"
      using find_registered_iff [of user_email "email p" "users d"] by blast
    from signUp_email_registered_response [OF assms(1,2) this ok] True
    show ?thesis by simp
  next
    case False
    then have e: "find (\<lambda>u. user_email u = email p) (users d) = None"
      using find_registered_iff [of user_email "email p" "users d"] by blast
    with reg have "find (\<lambda>u. user_username u = username p) (users d) \<noteq> None" by simp
    from signUp_username_registered_response [OF assms(1,2) e this ok] False
    show ?thesis by simp
  qed
  from store response show ?thesis by blast
qed

theorem signUp_registered_is_rejected_witness:
  "action sample_env ana = Inr ana
   \<and> email ana \<in> user_email ` set (users ana_db)
   \<and> no_call_rejected
        (trace (snd (signUpWithCredentials spec_indexes sample_env ana (start ana_db))))
   \<and> db (snd (signUpWithCredentials spec_indexes sample_env ana (start ana_db))) = ana_db
   \<and> fst (signUpWithCredentials spec_indexes sample_env ana (start ana_db)) =
       Value (HandleError (Error ''User already exists''))
   \<and> action sample_env ana_again = Inr ana_again
   \<and> email ana_again \<notin> user_email ` set (users ana_db)
   \<and> username ana_again \<in> user_username ` set (users ana_db)
   \<and> no_call_rejected
        (trace (snd (signUpWithCredentials spec_indexes sample_env ana_again (start ana_db))))
   \<and> db (snd (signUpWithCredentials spec_indexes sample_env ana_again (start ana_db))) = ana_db
   \<and> fst (signUpWithCredentials spec_indexes sample_env ana_again (start ana_db)) =
       Value (HandleError (Error ''Username already exists''))"
  using signUp_registered_is_rejected [OF sample_signUp_conflict, of ana]
    signUp_registered_is_rejected [OF sample_signUp_username_conflict, of ana_again]
  unfolding sample_signUp_conflict sample_signUp_username_conflict
  by (simp add: sample_defs ana_again_def no_call_rejected_def)

text \<open>
  The claim as stated fails in two ways. Validation comes first: a sign-up under Ana's
  registered email with an empty password is answered with the validation error, and no
  conflict is reported. And when Ana signs up a second time with valid input and no call
  fails, what the action hands to \<^verbatim>\<open>handleError\<close> is a plain \<^verbatim>\<open>Error\<close>, not an error
  of a class \<^verbatim>\<open>ConflictError\<close>.
\<close>

theorem signUp_registered_email_other_responses:
  "email (ana\<lparr>password := []\<rparr>) \<in> user_email ` set (users ana_db)
   \<and> fst (signUpWithCredentials spec_indexes (sample_env\<lparr>action := requires_password\<rparr>)
            (ana\<lparr>password := []\<rparr>) (start ana_db)) =
       Value (HandleError (ValidationError [(''password'', [''Password is required''])]))
   \<and> email ana \<in> user_email ` set (users ana_db)
   \<and> fst (signUpWithCredentials spec_indexes sample_env ana (start ana_db)) =
       Value (HandleError (Error ''User already exists''))
   \<and> exn_class (Error ''User already exists'') = ''Error''
   \<and> exn_class (Error ''User already exists'') \<noteq> ''ConflictError''"
  unfolding sample_signUp_conflict
  by (simp add: signUpWithCredentials_def ret_def requires_password_def sample_defs)

section \<open>Sign-up: the session is established after the commit\<close>

lemma commit_before_signIn_sound:
  "commit_before_signIn t \<Longrightarrow> t = pre @ (c, res) # post \<Longrightarrow> is_signIn c \<Longrightarrow>
     (CommitTransaction, None) \<in> set pre"
proof (induction t arbitrary: pre)
  case Nil
  then show ?case by simp
next
  case (Cons x t)
  show ?case
  proof (cases pre)
    case Nil
    with Cons.prems show ?thesis
      by (auto simp: is_signIn_def split: if_splits call.splits)
  next
    case (Cons y pre')
    with Cons.prems Cons.IH [of pre'] show ?thesis
      by (cases x) (auto split: if_splits)
  qed
qed

lemma signUp_commit_before_signIn:
  "signUpWithCredentials ix E params (start d) = (r, s') \<Longrightarrow> commit_before_signIn (trace s')"
  unfolding signUp_defs prims
  by (auto split: flow_splits simp: is_signIn_def)

text \<open>
  Claim C4. On every execution path of \<^verbatim>\<open>signUpWithCredentials\<close>, whatever the
  environment does: wherever a call to \<^verbatim>\<open>signIn\<close> stands in the trace of the run, a
  \<^verbatim>\<open>commitTransaction\<close> that returned normally stands before it.
\<close>

theorem signIn_only_after_commit:
  assumes "signUpWithCredentials ix E params (start d) = (r, s')"
      and "trace s' = pre @ (c, res) # post"
      and "is_signIn c"
  shows "(CommitTransaction, None) \<in> set pre"
  using commit_before_signIn_sound [OF signUp_commit_before_signIn [OF assms(1)] assms(2,3)] .

theorem signIn_only_after_commit_witness:
  "trace (snd (signUpWithCredentials spec_indexes sample_env ana (start empty_db))) =
     [(StartSession, None), (StartTransaction, None),
      (UserFindOne_email ''a@x.com'', None), (UserFindOne_username ''ana'', None),
      (BcryptHash ''secret123'' 12, None), (UserCreate ana_user, None),
      (AccountCreate ana_credentials, None), (CommitTransaction, None)]
     @ (SignIn ''credentials'' ''a@x.com'' ''secret123'', None) # [(EndSession, None)]
   \<and> is_signIn (SignIn ''credentials'' ''a@x.com'' ''secret123'')
   \<and> (CommitTransaction, None) \<in> set
     [(StartSession, None), (StartTransaction, None),
      (UserFindOne_email ''a@x.com'', None), (UserFindOne_username ''ana'', None),
      (BcryptHash ''secret123'' 12, None), (UserCreate ana_user, None),
      (AccountCreate ana_credentials, None), (CommitTransaction, None)]"
  using signIn_only_after_commit [OF sample_signUp_succeeds,
      of "[(StartSession, None), (StartTransaction, None),
      (UserFindOne_email ''a@x.com'', None), (UserFindOne_username ''ana'', None),
      (BcryptHash ''secret123'' 12, None), (UserCreate ana_user, None),
      (AccountCreate ana_credentials, None), (CommitTransaction, None)]"
      "SignIn ''credentials'' ''a@x.com'' ''secret123''" None "[(EndSession, None)]"]
  unfolding sample_signUp_succeeds by (simp add: is_signIn_def)

section \<open>Sign-up: a session that cannot be established\<close>

text \<open>
  Claim C5, as amended. If \<^verbatim>\<open>signIn\<close> fails after the sign-up transaction has
  committed, the committed User and Account stay in the store, \<^verbatim>\<open>abortTransaction\<close> is
  never called, and the action returns \<^verbatim>\<open>handleError\<close> of the exception
  \<^verbatim>\<open>signIn\<close> threw: an error response, not a follow-up that asks for a login.
\<close>

theorem signIn_failure_after_commit:
  assumes "signUpWithCredentials ix E params (start d) = (r, s')"
      and "action E params = Inr p"
      and "(SignIn ''credentials'' (email p) (password p), Some e) \<in> set (trace s')"
  shows "r = Value (HandleError e)
       \<and> (CommitTransaction, None) \<in> set (trace s')
       \<and> AbortTransaction \<notin> fst ` set (trace s')
       \<and> users (db s') = users d @
           [\<lparr>user_id = new_ObjectId d, user_name = name p, user_username = username p,
             user_email = email p, user_image = None\<rparr>]
       \<and> accounts (db s') = accounts d @
           [\<lparr>account_userId = new_ObjectId d, account_name = name p, account_image = None,
             account_provider = ''credentials'', account_providerAccountId = email p,
             account_password = Some (bcrypt_hash E (password p) 12)\<rparr>]"
proof -
  from signUp_signIn_rejected [OF assms]
  have *: "r = Value (HandleError e)" "(CommitTransaction, None) \<in> set (trace s')"
    "AbortTransaction \<notin> fst ` set (trace s')" by simp_all
  from signUp_committed_store [OF assms(1,2) *(2)] * show ?thesis by simp
qed

theorem signIn_failure_after_commit_witness:
  "action (sample_env\<lparr>rejects := signIn_fails\<rparr>) ana = Inr ana
   \<and> (SignIn ''credentials'' (email ana) (password ana), Some (External ''CredentialsSignin'' []))
       \<in> set (trace (snd (signUpWithCredentials spec_indexes
                 (sample_env\<lparr>rejects := signIn_fails\<rparr>) ana (start empty_db))))
   \<and> fst (signUpWithCredentials spec_indexes (sample_env\<lparr>rejects := signIn_fails\<rparr>) ana
            (start empty_db)) = Value (HandleError (External ''CredentialsSignin'' []))
   \<and> db (snd (signUpWithCredentials spec_indexes (sample_env\<lparr>rejects := signIn_fails\<rparr>) ana
            (start empty_db))) = ana_db"
  using signIn_failure_after_commit [OF sample_signUp_signIn_fails, of ana
      "External ''CredentialsSignin'' []"]
  unfolding sample_signUp_signIn_fails
  by (simp add: sample_env_def ana_def)

text \<open>
  The claim as stated fails: \<^verbatim>\<open>signIn\<close> rejects after Ana's sign-up has committed,
  and the action returns the error response \<^verbatim>\<open>handleError(error)\<close>.
\<close>

theorem signIn_failure_is_returned_as_error:
  "fst (signUpWithCredentials spec_indexes (sample_env\<lparr>rejects := signIn_fails\<rparr>) ana
          (start empty_db)) = Value (HandleError (External ''CredentialsSignin'' []))
   \<and> fst (signUpWithCredentials spec_indexes (sample_env\<lparr>rejects := signIn_fails\<rparr>) ana
          (start empty_db)) \<noteq> Value Success
   \<and> db (snd (signUpWithCredentials spec_indexes (sample_env\<lparr>rejects := signIn_fails\<rparr>) ana
          (start empty_db))) = ana_db"
  unfolding sample_signUp_signIn_fails by simp

section \<open>Sign-up: what a successful run stores\<close>

text \<open>
  Claim C8. For every successful sign-up the store gains exactly one User, built from the
  validated name, username and email, and one Account that references this User, has
  provider \<^verbatim>\<open>"credentials"\<close> and holds as password the value \<^verbatim>\<open>bcrypt.hash\<close>
  returned for the password at 12 rounds. \<^verbatim>\<open>bcrypt.hash\<close> is called with no other
  cost, and nothing else that is stored depends on the password, so the plaintext is not
  stored. (That bcrypt is slow, salted and one-way is a property of the library.)
\<close>

theorem signUp_success_stores_hash:
  assumes "signUpWithCredentials ix E params (start d) = (Value Success, s')"
      and "action E params = Inr p"
  shows "users (db s') = users d @
           [\<lparr>user_id = new_ObjectId d, user_name = name p, user_username = username p,
             user_email = email p, user_image = None\<rparr>]
       \<and> accounts (db s') = accounts d @
           [\<lparr>account_userId = new_ObjectId d, account_name = name p, account_image = None,
             account_provider = ''credentials'', account_providerAccountId = email p,
             account_password = Some (bcrypt_hash E (password p) 12)\<rparr>]
       \<and> (\<forall>pw n res. (BcryptHash pw n, res) \<in> set (trace s') \<longrightarrow>
             pw = password p \<and> 12 \<le> n)
       \<and> (BcryptHash (password p) 12, None) \<in> set (trace s')"
proof -
  from signUp_success_committed [OF assms(1)]
  have c: "(CommitTransaction, None) \<in> set (trace s')" .
  have h: "\<forall>pw n res. (BcryptHash pw n, res) \<in> set (trace s') \<longrightarrow>
             pw = password p \<and> 12 \<le> n"
  proof (intro allI impI)
    fix pw n res
    assume "(BcryptHash pw n, res) \<in> set (trace s')"
    from signUp_hash_call [OF assms this] show "pw = password p \<and> 12 \<le> n" by simp
  qed
  from signUp_committed_store [OF assms c] signUp_committed_hash [OF assms c] h
  show ?thesis by blast
qed

theorem signUp_success_stores_hash_witness:
  "fst (signUpWithCredentials spec_indexes sample_env ana (start empty_db)) = Value Success
   \<and> action sample_env ana = Inr ana
   \<and> db (snd (signUpWithCredentials spec_indexes sample_env ana (start empty_db))) = ana_db
   \<and> account_password ana_credentials = Some (bcrypt_hash sample_env (password ana) 12)
   \<and> (BcryptHash ''secret123'' 12, None)
        \<in> set (trace (snd (signUpWithCredentials spec_indexes sample_env ana (start empty_db))))"
  using signUp_success_stores_hash [OF sample_signUp_succeeds, of ana]
  unfolding sample_signUp_succeeds
  by (simp add: sample_env_def ana_def ana_credentials_def)

section \<open>Sign-up and the jwt callback: credentials accounts are keyed by email\<close>

text \<open>
  Claim C10. Whatever a run of the sign-up action leaves in the store, it is either the
  store as it was, or the store with one more User and one more Account, where the
  Account references that User, has provider \<^verbatim>\<open>"credentials"\<close> and has the User's
  email as its \<^verbatim>\<open>providerAccountId\<close>. The \<^verbatim>\<open>jwt\<close> callback counts on this: for an
  account of type \<^verbatim>\<open>"credentials"\<close> it looks the account up by the token's email, and
  by nothing else.
\<close>

theorem credentials_account_keyed_by_email:
  assumes "signUpWithCredentials ix E params (start d) = (r, s')"
  shows "(db s' = d \<or>
          (\<exists>u a. users (db s') = users d @ [u] \<and> accounts (db s') = accounts d @ [a] \<and>
                 account_userId a = user_id u \<and> account_provider a = ''credentials'' \<and>
                 account_providerAccountId a = user_email u))
       \<and> (jwt_type acct = ''credentials'' \<longrightarrow>
            jwt getByProvider toString token (Some acct) =
              (case getByProvider (token_email token) of
                 (True, Some existingAccount) \<Rightarrow>
                   token\<lparr>token_sub := Some (toString (account_userId existingAccount))\<rparr>
               | _ \<Rightarrow> token))"
proof -
  have store: "db s' = d \<or>
          (\<exists>u a. users (db s') = users d @ [u] \<and> accounts (db s') = accounts d @ [a] \<and>
                 account_userId a = user_id u \<and> account_provider a = ''credentials'' \<and>
                 account_providerAccountId a = user_email u)"
  proof (cases "(CommitTransaction, None) \<in> set (trace s')")
    case False
    with signUp_uncommitted [OF assms] show ?thesis by simp
  next
    case True
    from signUp_commit_needs_valid [OF assms True]
    obtain p where p: "action E params = Inr p" by blast
    from signUp_committed_store [OF assms p True] show ?thesis by simp
  qed
  have key: "jwt_type acct = ''credentials'' \<longrightarrow>
            jwt getByProvider toString token (Some acct) =
              (case getByProvider (token_email token) of
                 (True, Some existingAccount) \<Rightarrow>
                   token\<lparr>token_sub := Some (toString (account_userId existingAccount))\<rparr>
               | _ \<Rightarrow> token)"
    by (auto simp: jwt_def getByProvider_argument_def split: prod.splits option.splits bool.splits)
  from store key show ?thesis by blast
qed

theorem credentials_account_keyed_by_email_witness:
  "db (snd (signUpWithCredentials spec_indexes sample_env ana (start empty_db))) = ana_db
   \<and> users ana_db = users empty_db @ [ana_user]
   \<and> accounts ana_db = accounts empty_db @ [ana_credentials]
   \<and> account_provider ana_credentials = ''credentials''
   \<and> account_providerAccountId ana_credentials = user_email ana_user
   \<and> jwt_type \<lparr>jwt_type = ''credentials'', jwt_providerAccountId = ''a@x.com''\<rparr> = ''credentials''
   \<and> jwt (sample_getByProvider ana_db) sample_toString
        \<lparr>token_email = ''a@x.com'', token_sub = None\<rparr>
        (Some \<lparr>jwt_type = ''credentials'', jwt_providerAccountId = ''a@x.com''\<rparr>) =
      \<lparr>token_email = ''a@x.com'', token_sub = Some ''1''\<rparr>"
  using credentials_account_keyed_by_email [OF sample_signUp_succeeds,
      of "\<lparr>jwt_type = ''credentials'', jwt_providerAccountId = ''a@x.com''\<rparr>"
         "sample_getByProvider ana_db" sample_toString
         "\<lparr>token_email = ''a@x.com'', token_sub = None\<rparr>"]
  unfolding sample_signUp_succeeds
  by (simp add: ana_db_def ana_user_def ana_credentials_def empty_db_def
        sample_getByProvider_def sample_toString_def)

section \<open>The OAuth route: what reaches the store\<close>

lemma POST_store_users:
  assumes "POST ix E req (start d) = (r, s')"
  shows "users (db s') = users d \<or>
         users (db s') =
           (case find (\<lambda>u. user_email u = ou_email (user req)) (users d) of
              None \<Rightarrow> users d @ [POST_user_doc E req d]
            | Some u \<Rightarrow> update_first (\<lambda>v. user_id v = user_id u)
                 (apply_set (updatedData u (ou_name (user req)) (ou_image (user req)))) (users d))"
  using assms unfolding POST_defs prims POST_user_doc_def
  by (auto split: flow_splits)

lemma POST_store_accounts:
  assumes "POST ix E req (start d) = (r, s')"
  shows "accounts (db s') = accounts d \<or>
         (\<exists>uid. accounts (db s') = accounts d @ [POST_account_doc req uid] \<and>
          (account_unique ix \<longrightarrow>
             account_key (POST_account_doc req uid) \<notin> set (map account_key (accounts d))))"
  using assms unfolding POST_defs prims POST_account_doc_def
  by (auto split: flow_splits)

lemma POST_user_writes:
  assumes "POST ix E req (start d) = (r, s')"
      and "find (\<lambda>u. user_email u = ou_email (user req)) (users d) = Some u"
      and "(c, res) \<in> set (trace s')" and "is_user_write c"
  shows "c = UserUpdateOne (user_id u) (updatedData u (ou_name (user req)) (ou_image (user req)))
         \<and> (user_name u \<noteq> ou_name (user req) \<or> user_image u \<noteq> Some (ou_image (user req)))"
  using assms unfolding POST_defs prims
  by (auto split: flow_splits simp: is_user_write_def keys_length_def updatedData_def)

lemma POST_success_users:
  assumes "POST ix E req (start d) = (Value Success, s')"
      and "find (\<lambda>v. user_email v = ou_email (user req)) (users d) = Some u"
  shows "users (db s') =
           (if user_name u \<noteq> ou_name (user req) \<or> user_image u \<noteq> Some (ou_image (user req))
            then update_first (\<lambda>v. user_id v = user_id u)
                   (apply_set (updatedData u (ou_name (user req)) (ou_image (user req)))) (users d)
            else users d)"
  using assms unfolding POST_defs prims
  by (auto split: flow_splits simp: keys_length_def updatedData_def)

section \<open>The OAuth route: accounts per provider account, users per email\<close>



lemma POST_distinct_accounts:
  assumes "POST ix E req (start d) = (r, s')" and "account_unique ix"
      and "distinct (map account_key (accounts d))"
  shows "distinct (map account_key (accounts (db s')))"
  using POST_store_accounts [OF assms(1)] assms(2,3) by auto


lemma POST_sequence_distinct_accounts:
  "account_unique ix \<Longrightarrow> distinct (map account_key (accounts d)) \<Longrightarrow>
   distinct (map account_key (accounts (POST_sequence ix calls d)))"
proof (induction calls arbitrary: d)
  case Nil
  then show ?case by simp
next
  case (Cons c calls)
  obtain E req where c: "c = (E, req)" by (cases c)
  obtain r s' where run: "POST ix E req (start d) = (r, s')"
    by (cases "POST ix E req (start d)")
  from POST_distinct_accounts [OF run Cons.prems] Cons.IH [of "db s'"] Cons.prems(1) c run
  show ?case by simp
qed
















text \<open>
  Where the Account collection enforces a unique index on (provider, providerAccountId),
  the second \<^verbatim>\<open>Account.create\<close> fails with a duplicate key and the transaction is
  aborted: the index, not the route, then keeps one Account per pair.
\<close>

lemma POST_sequence_one_account_per_pair_by_index:
  assumes "account_unique ix" and "distinct (map account_key (accounts d))"
  shows "accounts_with_key p pid (POST_sequence ix calls d) \<le> 1"
  using distinct_count_le_1 [OF POST_sequence_distinct_accounts [OF assms], of "(p, pid)" calls]
  by (simp add: accounts_with_key_def)

section \<open>The OAuth route: the partial update of an existing user\<close>

text \<open>
  Claim C7. When the OAuth route finds a User with the request's email, then on every
  path: the only write to the User collection that the route can issue is one
  \<^verbatim>\<open>updateOne\<close> on that User's \<^verbatim>\<open>_id\<close>, whose \<^verbatim>\<open>$set\<close> holds the name exactly if
  the name differs from the stored one and the image exactly if the image differs, and
  it is issued only if one of them differs (so no write at all if nothing differs). The
  ids, emails and usernames of all Users are left as they were, and so are the names if
  the name does not differ and the images if the image does not differ. When the route
  succeeds, the stored Users are the old ones with that \<^verbatim>\<open>$set\<close> applied, or exactly the
  old ones if nothing differed.
\<close>

theorem POST_updates_only_changed_profile_fields:
  assumes "POST ix E req (start d) = (r, s')"
      and "find (\<lambda>v. user_email v = ou_email (user req)) (users d) = Some u"
  shows "(\<forall>c res. (c, res) \<in> set (trace s') \<longrightarrow> is_user_write c \<longrightarrow>
            c = UserUpdateOne (user_id u)
                  \<lparr>upd_name = (if user_name u = ou_name (user req) then None
                                else Some (ou_name (user req))),
                   upd_image = (if user_image u = Some (ou_image (user req)) then None
                                else Some (ou_image (user req)))\<rparr>
            \<and> (user_name u \<noteq> ou_name (user req) \<or> user_image u \<noteq> Some (ou_image (user req))))
       \<and> map user_id (users (db s')) = map user_id (users d)
       \<and> map user_email (users (db s')) = map user_email (users d)
       \<and> map user_username (users (db s')) = map user_username (users d)
       \<and> (user_name u = ou_name (user req) \<longrightarrow>
            map user_name (users (db s')) = map user_name (users d))
       \<and> (user_image u = Some (ou_image (user req)) \<longrightarrow>
            map user_image (users (db s')) = map user_image (users d))
       \<and> (r = Value Success \<longrightarrow>
            users (db s') =
              (if user_name u \<noteq> ou_name (user req) \<or> user_image u \<noteq> Some (ou_image (user req))
               then update_first (\<lambda>v. user_id v = user_id u)
                      (apply_set (updatedData u (ou_name (user req)) (ou_image (user req))))
                      (users d)
               else users d))"
proof -
  let ?upd = "updatedData u (ou_name (user req)) (ou_image (user req))"
  have upd: "?upd = \<lparr>upd_name = (if user_name u = ou_name (user req) then None
                                else Some (ou_name (user req))),
                   upd_image = (if user_image u = Some (ou_image (user req)) then None
                                else Some (ou_image (user req)))\<rparr>"
    by (simp add: updatedData_def)
  have writes: "\<forall>c res. (c, res) \<in> set (trace s') \<longrightarrow> is_user_write c \<longrightarrow>
            c = UserUpdateOne (user_id u) ?upd
            \<and> (user_name u \<noteq> ou_name (user req) \<or> user_image u \<noteq> Some (ou_image (user req)))"
    using POST_user_writes [OF assms] by blast
  from POST_store_users [OF assms(1)] assms(2)
  have store: "users (db s') = users d \<or>
      users (db s') = update_first (\<lambda>v. user_id v = user_id u) (apply_set ?upd) (users d)"
    by simp
  from store have frame: "map user_id (users (db s')) = map user_id (users d)"
      "map user_email (users (db s')) = map user_email (users d)"
      "map user_username (users (db s')) = map user_username (users d)"
    by (auto simp: update_first_frame)
  from store have nm: "user_name u = ou_name (user req) \<longrightarrow>
            map user_name (users (db s')) = map user_name (users d)"
    by (auto simp: update_first_name_frame updatedData_def)
  from store have im: "user_image u = Some (ou_image (user req)) \<longrightarrow>
            map user_image (users (db s')) = map user_image (users d)"
    by (auto simp: update_first_image_frame updatedData_def)
  have ok: "r = Value Success \<longrightarrow>
            users (db s') =
              (if user_name u \<noteq> ou_name (user req) \<or> user_image u \<noteq> Some (ou_image (user req))
               then update_first (\<lambda>v. user_id v = user_id u) (apply_set ?upd) (users d)
               else users d)"
    using POST_success_users [OF _ assms(2)] assms(1) by blast
  from writes frame nm im ok show ?thesis unfolding upd by blast
qed

theorem POST_updates_only_changed_profile_fields_witness:
  "find (\<lambda>v. user_email v = ou_email (user github_ana)) (users ana_db) = Some ana_user
   \<and> (UserUpdateOne 1 \<lparr>upd_name = Some ''Ana Maria'', upd_image = Some ''https://x.com/a.png''\<rparr>,
       None) \<in> set (trace (snd (POST spec_indexes sample_env github_ana (start ana_db))))
   \<and> is_user_write
       (UserUpdateOne 1 \<lparr>upd_name = Some ''Ana Maria'', upd_image = Some ''https://x.com/a.png''\<rparr>)
   \<and> fst (POST spec_indexes sample_env github_ana (start ana_db)) = Value Success
   \<and> users (db (snd (POST spec_indexes sample_env github_ana (start ana_db)))) = [ana_github_user]
   \<and> find (\<lambda>v. user_email v = ou_email (user github_ana)) (users ana_github_db)
       = Some ana_github_user
   \<and> user_name ana_github_user = ou_name (user github_ana)
   \<and> user_image ana_github_user = Some (ou_image (user github_ana))
   \<and> list_all (\<lambda>(c, res). \<not> is_user_write c)
       (trace (snd (POST spec_indexes sample_env github_ana (start ana_github_db))))
   \<and> users (db (snd (POST spec_indexes sample_env github_ana (start ana_github_db))))
       = users ana_github_db"
  using POST_updates_only_changed_profile_fields [OF sample_POST_links, of ana_user]
    POST_updates_only_changed_profile_fields [OF sample_POST_again, of ana_github_user]
  unfolding sample_POST_links sample_POST_again
  by (simp add: sample_defs is_user_write_def updatedData_def apply_set_def)

section \<open>Both flows: ending the session\<close>

lemma tryFinally_endSession:
  "tryFinally m endSession s = (r, s') \<Longrightarrow>
     last (trace s') = (EndSession, None) \<and> txn s' = None"
  by (auto simp: tryFinally_def endSession_def record_call_def split: prod.splits result.splits)

text \<open>
  Once \<^verbatim>\<open>startTransaction\<close> has returned, the run is inside the \<^verbatim>\<open>try\<close>, and the
  \<^verbatim>\<open>finally\<close> block ends the session on every path out of it.
\<close>

lemma signUp_session_released:
  assumes "signUpWithCredentials ix E params (start d) = (r, s')"
      and "(StartTransaction, None) \<in> set (trace s')"
  shows "last (trace s') = (EndSession, None) \<and> txn s' = None"
proof (cases "action E params")
  case (Inl e)
  with assms show ?thesis by (auto simp: signUpWithCredentials_def ret_def start_def)
next
  case (Inr p)
  show ?thesis
  proof (cases "rejects E [] StartSession")
    case (Some e)
    with Inr assms show ?thesis
      by (auto simp: signUpWithCredentials_def andThen_def startSession_def call_def
            record_call_def start_def)
  next
    case None
    show ?thesis
    proof (cases "rejects E [(StartSession, None)] StartTransaction")
      case (Some e)
      with None Inr assms show ?thesis
        by (auto simp: signUpWithCredentials_def andThen_def startSession_def call_def
              startTransaction_def record_call_def start_def)
    next
      case n: None
      with None Inr assms(1) show ?thesis
        by (simp add: signUpWithCredentials_def andThen_def startSession_def call_def
              startTransaction_def record_call_def start_def tryFinally_endSession)
    qed
  qed
qed

lemma POST_session_released:
  assumes "POST ix E req (start d) = (r, s')"
      and "(StartTransaction, None) \<in> set (trace s')"
  shows "last (trace s') = (EndSession, None) \<and> txn s' = None"
proof (cases "rejects E [] DbConnect")
  case (Some e)
  with assms show ?thesis
    by (auto simp: POST_def andThen_def call_def record_call_def start_def)
next
  case None
  show ?thesis
  proof (cases "rejects E [(DbConnect, None)] StartSession")
    case (Some e)
    with None assms show ?thesis
      by (auto simp: POST_def andThen_def startSession_def call_def record_call_def start_def)
  next
    case n: None
    show ?thesis
    proof (cases "rejects E [(DbConnect, None), (StartSession, None)] StartTransaction")
      case (Some e)
      with n None assms show ?thesis
        by (auto simp: POST_def andThen_def startSession_def call_def startTransaction_def
              record_call_def start_def)
    next
      case m: None
      with n None assms(1) show ?thesis
        by (simp add: POST_def andThen_def startSession_def call_def record_call_def
              startTransaction_def start_def tryFinally_endSession)
    qed
  qed
qed

text \<open>
  In both flows \<^verbatim>\<open>session.startTransaction()\<close> stands between \<^verbatim>\<open>startSession()\<close>
  and the \<^verbatim>\<open>try\<close>. Whenever it throws, in any environment, the exception leaves the
  function at once: the session has been opened and \<^verbatim>\<open>endSession\<close> is never called.
\<close>

lemma signUp_startTransaction_throws:
  assumes "signUpWithCredentials ix E params (start d) = (r, s')"
      and "(StartTransaction, Some e) \<in> set (trace s')"
  shows "r = Throw e \<and> trace s' = [(StartSession, None), (StartTransaction, Some e)]"
  using assms unfolding signUp_defs prims
  by (auto split: flow_splits)

lemma POST_startTransaction_throws:
  assumes "POST ix E req (start d) = (r, s')"
      and "(StartTransaction, Some e) \<in> set (trace s')"
  shows "r = Throw e
       \<and> trace s' = [(DbConnect, None), (StartSession, None), (StartTransaction, Some e)]"
  using assms unfolding POST_defs prims
  by (auto split: flow_splits)

text \<open>
  Claim C9: in both flows the session is ended on every exit path. It holds on every
  path that enters the \<^verbatim>\<open>try\<close>, and fails on the one before it. With a driver whose
  \<^verbatim>\<open>startTransaction\<close> throws, on any store and with any indexes, Ana's sign-up and her
  GitHub sign-in each open a session, throw the driver's exception to the caller, and
  end without a call to \<^verbatim>\<open>endSession\<close>.
\<close>

theorem session_not_ended_when_startTransaction_throws:
  "signUpWithCredentials ix (sample_env\<lparr>rejects := startTransaction_fails\<rparr>) ana (start d) =
     (Throw (External ''MongoTransactionError'' []),
      \<lparr>db = d, txn = None, transactionCommited = False,
       trace = [(StartSession, None),
                (StartTransaction, Some (External ''MongoTransactionError'' []))]\<rparr>)
   \<and> EndSession \<notin> fst ` set [(StartSession, None),
                (StartTransaction, Some (External ''MongoTransactionError'' []))]
   \<and> POST ix (sample_env\<lparr>rejects := startTransaction_fails\<rparr>) github_ana (start d) =
     (Throw (External ''MongoTransactionError'' []),
      \<lparr>db = d, txn = None, transactionCommited = False,
       trace = [(DbConnect, None), (StartSession, None),
                (StartTransaction, Some (External ''MongoTransactionError'' []))]\<rparr>)
   \<and> EndSession \<notin> fst ` set [(DbConnect, None), (StartSession, None),
                (StartTransaction, Some (External ''MongoTransactionError'' []))]"
  by (simp add: signUpWithCredentials_def POST_def andThen_def startSession_def
        startTransaction_def call_def record_call_def start_def sample_env_def
        startTransaction_fails_def)

section \<open>Usernames: slugified by the OAuth route, not by the sign-up action\<close>

text \<open>
  Claim C6: every User created by either flow has a slug-normalized username. The OAuth
  route keeps it, the sign-up action does not. Whatever \<^verbatim>\<open>slugify\<close> is: an OAuth
  sign-in with the username \<^verbatim>\<open>"Ana"\<close> stores the User with the username
  \<^verbatim>\<open>slugify("Ana")\<close>, while a sign-up with the username \<^verbatim>\<open>"Ana"\<close> stores it as
  supplied, capital letter and all.
\<close>

theorem signUp_username_not_slugified:
  "map user_username (users (db (snd (signUpWithCredentials spec_indexes
       (sample_env\<lparr>slugify := sl\<rparr>) (ana\<lparr>username := ''Ana''\<rparr>) (start empty_db)))))
     = [''Ana'']
   \<and> map user_username (users (db (snd (POST spec_indexes (sample_env\<lparr>slugify := sl\<rparr>)
       (github_ana\<lparr>user := (user github_ana)\<lparr>ou_username := ''Ana''\<rparr>\<rparr>) (start empty_db)))))
     = [sl ''Ana'']"
  by (simp add: signUp_defs POST_eval)

end
